theory Spec2Isabelle
  imports Main "HOL-Library.Char_ord" "HOL-Library.Sublist"
begin

section \<open>JavaScript strings\<close>

text \<open>
  A JavaScript string is a sequence of UTF-16 code units. The model is \<^typ>\<open>string\<close>,
  each \<^typ>\<open>char\<close> standing for one code unit in the range U+0000 to U+00FF (Latin-1).
  Every address that \<open>emailRegex\<close> accepts is ASCII, so everything downstream of the
  format check lies inside this range.
\<close>

text \<open>\<open>String.prototype.trim\<close>: the WhiteSpace and LineTerminator code units below U+0100.\<close>

definition isWhiteSpace :: "char \<Rightarrow> bool" where
  "isWhiteSpace c =
     (c \<in> set [CHR 0x09, CHR 0x0A, CHR 0x0B, CHR 0x0C, CHR 0x0D, CHR 0x20, CHR 0xA0])"

definition trim :: "string \<Rightarrow> string" where
  "trim s = rev (dropWhile isWhiteSpace (rev (dropWhile isWhiteSpace s)))"

text \<open>
  \<open>String.prototype.toLowerCase\<close> on Latin-1: A-Z, and U+00C0 to U+00DE without the
  multiplication sign U+00D7, move up by 32; every other code unit stays.
\<close>

definition toLowerChar :: "char \<Rightarrow> char" where
  "toLowerChar c =
     (let n = (of_char c :: nat)
      in if (65 \<le> n \<and> n \<le> 90) \<or> (192 \<le> n \<and> n \<le> 222 \<and> n \<noteq> 215)
         then char_of (n + 32) else c)"

definition toUpperChar :: "char \<Rightarrow> char" where
  "toUpperChar c =
     (let n = (of_char c :: nat)
      in if (97 \<le> n \<and> n \<le> 122) \<or> (224 \<le> n \<and> n \<le> 254 \<and> n \<noteq> 247)
         then char_of (n - 32) else c)"

definition toLowerCase :: "string \<Rightarrow> string" where
  "toLowerCase s = map toLowerChar s"

text \<open>\<open>s.split(c)\<close> for a one-character separator: the pieces between the separators.\<close>

fun split :: "char \<Rightarrow> string \<Rightarrow> string list" where
  "split sep [] = [[]]"
| "split sep (c # cs) =
     (if c = sep then [] # split sep cs
      else (case split sep cs of p # ps \<Rightarrow> (c # p) # ps | [] \<Rightarrow> [[c]]))"

text \<open>\<open>xs[i]\<close>: \<open>undefined\<close> (here \<open>None\<close>) out of range.\<close>

definition at_index :: "'a list \<Rightarrow> nat \<Rightarrow> 'a option" where
  "at_index xs i = (if i < length xs then Some (xs ! i) else None)"

text \<open>\<open>s.includes(t)\<close>: \<open>t\<close> occurs in \<open>s\<close> as a contiguous substring.\<close>

fun str_includes :: "string \<Rightarrow> string \<Rightarrow> bool" where
  "str_includes [] t = (t = [])"
| "str_includes (c # cs) t = (prefix t (c # cs) \<or> str_includes cs t)"

section \<open>Regular expressions\<close>

text \<open>
  The regular expression literals of the source are written as syntax trees and run by a
  derivative matcher. \<open>Backref n\<close> is the source fragment \<open>(.)\1{n,}\<close>: one character
  that is not a line terminator, then at least \<open>n\<close> repetitions of it.
\<close>

datatype cls = Range char char | Ch char

datatype regex =
    Fail
  | Eps
  | Atom "cls list"
  | Seq regex regex
  | Alt regex regex
  | Opt regex
  | Star regex
  | Plus regex
  | Repeat nat nat regex
  | RepeatMin nat regex
  | Backref nat

fun cls_has :: "cls \<Rightarrow> char \<Rightarrow> bool" where
  "cls_has (Range lo hi) c = (lo \<le> c \<and> c \<le> hi)"
| "cls_has (Ch d) c = (c = d)"

text \<open>
  With the \<open>i\<close> flag a character matches a class when one of its case variants is in it
  (the Canonicalize comparison of the language, on Latin-1).
\<close>

definition cls_match :: "bool \<Rightarrow> cls list \<Rightarrow> char \<Rightarrow> bool" where
  "cls_match ci cl c =
     list_ex (\<lambda>k. cls_has k c \<or> (ci \<and> (cls_has k (toLowerChar c) \<or> cls_has k (toUpperChar c)))) cl"

fun nullable :: "regex \<Rightarrow> bool" where
  "nullable Fail = False"
| "nullable Eps = True"
| "nullable (Atom cl) = False"
| "nullable (Seq r s) = (nullable r \<and> nullable s)"
| "nullable (Alt r s) = (nullable r \<or> nullable s)"
| "nullable (Opt r) = True"
| "nullable (Star r) = True"
| "nullable (Plus r) = nullable r"
| "nullable (Repeat m n r) = (m = 0 \<or> nullable r)"
| "nullable (RepeatMin m r) = (m = 0 \<or> nullable r)"
| "nullable (Backref n) = False"

fun seq :: "regex \<Rightarrow> regex \<Rightarrow> regex" where
  "seq Fail s = Fail"
| "seq Eps s = s"
| "seq r s = Seq r s"

fun alt :: "regex \<Rightarrow> regex \<Rightarrow> regex" where
  "alt Fail s = s"
| "alt r Fail = r"
| "alt r s = Alt r s"

fun deriv :: "bool \<Rightarrow> char \<Rightarrow> regex \<Rightarrow> regex" where
  "deriv ci c Fail = Fail"
| "deriv ci c Eps = Fail"
| "deriv ci c (Atom cl) = (if cls_match ci cl c then Eps else Fail)"
| "deriv ci c (Seq r s) =
     (if nullable r then alt (seq (deriv ci c r) s) (deriv ci c s) else seq (deriv ci c r) s)"
| "deriv ci c (Alt r s) = alt (deriv ci c r) (deriv ci c s)"
| "deriv ci c (Opt r) = deriv ci c r"
| "deriv ci c (Star r) = seq (deriv ci c r) (Star r)"
| "deriv ci c (Plus r) = seq (deriv ci c r) (Star r)"
| "deriv ci c (Repeat m n r) =
     (if n = 0 then Fail else seq (deriv ci c r) (Repeat (m - 1) (n - 1) r))"
| "deriv ci c (RepeatMin m r) = seq (deriv ci c r) (RepeatMin (m - 1) r)"
| "deriv ci c (Backref n) =
     (if c = CHR 0x0A \<or> c = CHR 0x0D then Fail else RepeatMin n (Atom [Ch c]))"

fun matches :: "bool \<Rightarrow> regex \<Rightarrow> string \<Rightarrow> bool" where
  "matches ci r [] = nullable r"
| "matches ci r (c # cs) = matches ci (deriv ci c r) cs"

text \<open>A regular expression literal: \<open>/^expr$/i\<close> with each of \<open>^\<close>, \<open>$\<close>, \<open>i\<close> optional.\<close>

record regexp =
  anchorStart :: bool
  expr :: regex
  anchorEnd :: bool
  ignoreCase :: bool

text \<open>\<open>RegExp.prototype.test\<close>: some substring allowed by the anchors matches the expression.\<close>

definition test :: "regexp \<Rightarrow> string \<Rightarrow> bool" where
  "test re s =
     list_ex (matches (ignoreCase re) (expr re))
       (if anchorStart re \<and> anchorEnd re then [s]
        else if anchorStart re then prefixes s
        else if anchorEnd re then suffixes s
        else concat (map prefixes (suffixes s)))"

definition lit :: "string \<Rightarrow> regex" where
  "lit s = foldr (\<lambda>c r. Seq (Atom [Ch c]) r) s Eps"

section \<open>FormValidator (src/js/main.js)\<close>

text \<open>
  \<open>emailRegex\<close>: a local part of one or more characters of
  \<^verbatim>\<open>[a-zA-Z0-9.!#$%&'*+/=?^_`{|}~-]\<close>, the sign \<open>@\<close>, and labels separated by dots,
  each label \<^verbatim>\<open>[a-zA-Z0-9](?:[a-zA-Z0-9-]{0,61}[a-zA-Z0-9])?\<close>; anchored at both ends.
\<close>

definition alnum :: "cls list" where
  "alnum = [Range CHR ''a'' CHR ''z'', Range CHR ''A'' CHR ''Z'', Range CHR ''0'' CHR ''9'']"

definition localChars :: "cls list" where
  "localChars = alnum @ map Ch (''.!#$%&'' @ [CHR 0x27] @ ''*+/=?^_`{|}~-'')"

definition label :: regex where
  "label = Seq (Atom alnum) (Opt (Seq (Repeat 0 61 (Atom (alnum @ [Ch CHR ''-'']))) (Atom alnum)))"

definition emailRegex :: regexp where
  "emailRegex = \<lparr>anchorStart = True,
     expr = Seq (Plus (Atom localChars))
              (Seq (Atom [Ch CHR ''@''])
                 (Seq label (Star (Seq (Atom [Ch CHR ''.'']) label)))),
     anchorEnd = True, ignoreCase = False\<rparr>"

definition REQUIRED :: string where
  "REQUIRED = ''This field is required''"

definition INVALID_EMAIL :: string where
  "INVALID_EMAIL = ''Please enter a valid email address''"

definition TOO_LONG :: string where
  "TOO_LONG = ''Email address is too long (maximum 254 characters)''"

definition DISPOSABLE_EMAIL :: string where
  "DISPOSABLE_EMAIL = ''Please use a permanent email address''"

definition GENERIC_ERROR :: string where
  "GENERIC_ERROR = ''Please check your email address and try again''"

definition disposableDomains :: "string list" where
  "disposableDomains = [''10minutemail.com'', ''tempmail.org'', ''guerrillamail.com'',
     ''mailinator.com'', ''temp-mail.org'', ''throwaway.email'']"

text \<open>
  The patterns of \<open>isSuspiciousEmail\<close>, in the order of the source:
  \<^verbatim>\<open>/^test@/i\<close>, \<^verbatim>\<open>/^fake@/i\<close>, \<^verbatim>\<open>/^spam@/i\<close>, \<^verbatim>\<open>/^noreply@/i\<close>,
  \<^verbatim>\<open>/example\.com$/i\<close>, \<^verbatim>\<open>/localhost$/i\<close>, \<^verbatim>\<open>/\.local$/i\<close>, \<^verbatim>\<open>/^\d+@/\<close>,
  \<^verbatim>\<open>/^[a-z]{1}@/i\<close>, \<^verbatim>\<open>/(.)\1{4,}@/i\<close>.
\<close>

definition suspiciousPatterns :: "regexp list" where
  "suspiciousPatterns =
    [\<lparr>anchorStart = True, expr = lit ''test@'', anchorEnd = False, ignoreCase = True\<rparr>,
     \<lparr>anchorStart = True, expr = lit ''fake@'', anchorEnd = False, ignoreCase = True\<rparr>,
     \<lparr>anchorStart = True, expr = lit ''spam@'', anchorEnd = False, ignoreCase = True\<rparr>,
     \<lparr>anchorStart = True, expr = lit ''noreply@'', anchorEnd = False, ignoreCase = True\<rparr>,
     \<lparr>anchorStart = False, expr = lit ''example.com'', anchorEnd = True, ignoreCase = True\<rparr>,
     \<lparr>anchorStart = False, expr = lit ''localhost'', anchorEnd = True, ignoreCase = True\<rparr>,
     \<lparr>anchorStart = False, expr = lit ''.local'', anchorEnd = True, ignoreCase = True\<rparr>,
     \<lparr>anchorStart = True,
       expr = Seq (Plus (Atom [Range CHR ''0'' CHR ''9''])) (Atom [Ch CHR ''@'']),
       anchorEnd = False, ignoreCase = False\<rparr>,
     \<lparr>anchorStart = True,
       expr = Seq (Repeat 1 1 (Atom [Range CHR ''a'' CHR ''z''])) (Atom [Ch CHR ''@'']),
       anchorEnd = False, ignoreCase = True\<rparr>,
     \<lparr>anchorStart = False, expr = Seq (Backref 4) (Atom [Ch CHR ''@'']),
       anchorEnd = False, ignoreCase = True\<rparr>]"

definition isSuspiciousEmail :: "string \<Rightarrow> bool" where
  "isSuspiciousEmail email = list_ex (\<lambda>pattern. test pattern email) suspiciousPatterns"

record validation_result =
  isValid :: bool
  error :: "string option"
  "value" :: string

text \<open>
  \<open>validateEmail(email)\<close>. The argument is \<open>None\<close> for \<open>null\<close> (a form without the
  field); the empty string is falsy as well, and both give the value \<open>''\<close>.
\<close>

definition validateEmail :: "string option \<Rightarrow> validation_result" where
  "validateEmail email =
     (let result = \<lparr>isValid = False, error = None,
                     value = (case email of None \<Rightarrow> [] | Some e \<Rightarrow> if e = [] then [] else toLowerCase (trim e))\<rparr>
      in if value result = [] then result\<lparr>error := Some REQUIRED\<rparr>
         else if length (value result) > 254 then result\<lparr>error := Some TOO_LONG\<rparr>
         else if \<not> test emailRegex (value result) then result\<lparr>error := Some INVALID_EMAIL\<rparr>
         else if (case at_index (split CHR ''@'' (value result)) 1 of
                    None \<Rightarrow> False | Some domain \<Rightarrow> domain \<in> set disposableDomains)
              then result\<lparr>error := Some DISPOSABLE_EMAIL\<rparr>
         else if isSuspiciousEmail (value result) then result\<lparr>error := Some INVALID_EMAIL\<rparr>
         else result\<lparr>isValid := True\<rparr>)"

section \<open>JavaScript values and effects\<close>

text \<open>
  Values that arrive as JSON (request bodies, upstream responses). Only the truthiness of
  a number is observed by the code, so numbers are integers here.
\<close>

datatype jsval =
    JUndefined
  | JNull
  | JBool bool
  | JNum int
  | JStr string
  | JArr "jsval list"
  | JObj "(string \<times> jsval) list"

fun truthy :: "jsval \<Rightarrow> bool" where
  "truthy JUndefined = False"
| "truthy JNull = False"
| "truthy (JBool b) = b"
| "truthy (JNum n) = (n \<noteq> 0)"
| "truthy (JStr s) = (s \<noteq> [])"
| "truthy (JArr xs) = True"
| "truthy (JObj kvs) = True"

text \<open>\<open>a || b\<close> on values.\<close>

definition orElse :: "jsval \<Rightarrow> jsval \<Rightarrow> jsval" where
  "orElse a b = (if truthy a then a else b)"

text \<open>A process environment variable: \<open>undefined\<close> when unset; the empty string is falsy.\<close>

definition configured :: "string option \<Rightarrow> bool" where
  "configured v = (case v of None \<Rightarrow> False | Some s \<Rightarrow> s \<noteq> [])"

text \<open>The variable as a form parameter of \<open>URLSearchParams\<close>.\<close>

definition param :: "string option \<Rightarrow> string" where
  "param v = (case v of None \<Rightarrow> ''undefined'' | Some s \<Rightarrow> s)"

fun digit :: "nat \<Rightarrow> char" where
  "digit n = char_of (48 + n)"

fun showNat :: "nat \<Rightarrow> string" where
  "showNat n = (if n < 10 then [digit n] else showNat (n div 10) @ [digit (n mod 10)])"

declare showNat.simps [simp del]

text \<open>\<open>response.ok\<close>.\<close>

definition ok :: "nat \<Rightarrow> bool" where
  "ok st = (200 \<le> st \<and> st \<le> 299)"

section \<open>The serverless function (src/api/email-capture.js)\<close>

text \<open>
  Every \<open>throw\<close> of the file, and every exception the runtime raises inside it, is a
  value of \<open>zoho_error\<close>; the payload is what the message is built from.
\<close>

datatype zoho_error =
    NotConfigured string    \<comment> \<open>\<open>new Error(message)\<close> for a missing environment variable\<close>
  | FetchRejected string    \<comment> \<open>\<open>fetch\<close> rejected (no connection, DNS, TLS)\<close>
  | BodyNotJson             \<comment> \<open>\<open>response.json()\<close> rejected\<close>
  | PropertyOfNull          \<comment> \<open>TypeError: a property of \<open>null\<close> or \<open>undefined\<close> was read\<close>
  | NotAFunction string     \<comment> \<open>TypeError: the method called does not exist on the value\<close>
  | TokenRefreshFailed jsval  \<comment> \<open>\<open>Failed to refresh token: ${data.error || response.status}\<close>\<close>
  | InvalidResponse         \<comment> \<open>\<open>Invalid response from Zoho API\<close>\<close>
  | ApiStatusError nat jsval  \<comment> \<open>\<open>Zoho API error: ${response.status} - ${JSON.stringify(data)}\<close>\<close>
  | ApiCodeError jsval      \<comment> \<open>\<open>Zoho API error: ${data.message || data.code}\<close>\<close>

text \<open>
  \<open>v.name\<close> for the property names the code reads (\<open>email\<close>, \<open>source\<close>, \<open>error\<close>,
  \<open>access_token\<close>, \<open>code\<close>, \<open>message\<close>): a TypeError on \<open>null\<close> and \<open>undefined\<close>,
  the own property of an object, \<open>undefined\<close> on everything else.
\<close>

fun getProp :: "jsval \<Rightarrow> string \<Rightarrow> zoho_error + jsval" where
  "getProp JUndefined name = Inl PropertyOfNull"
| "getProp JNull name = Inl PropertyOfNull"
| "getProp (JObj kvs) name = Inr (case map_of kvs name of None \<Rightarrow> JUndefined | Some v \<Rightarrow> v)"
| "getProp v name = Inr JUndefined"

record upstream_response =
  status :: nat
  bodyText :: string   \<comment> \<open>\<open>response.text()\<close>\<close>
  json :: "jsval option"   \<comment> \<open>the body parsed as JSON; \<open>None\<close> when it does not parse\<close>

datatype fetch_result = Rejected string | Resolved upstream_response

datatype outbound =
    TokenRequest string string string   \<comment> \<open>refresh_token, client_id, client_secret\<close>
  | BulkRequest jsval string jsval      \<comment> \<open>access token, listkey, emailids\<close>

datatype logarg = LStr string | LVal jsval | LErr zoho_error

datatype event =
    Fetch outbound
  | ConsoleLog "logarg list"
  | ConsoleError "logarg list"

record world =
  ZOHO_CAMPAIGNS_CLIENT_ID :: "string option"
  ZOHO_CAMPAIGNS_CLIENT_SECRET :: "string option"
  ZOHO_CAMPAIGNS_REFRESH_TOKEN :: "string option"
  ZOHO_CAMPAIGNS_LIST_KEY :: "string option"
  upstream :: "outbound \<Rightarrow> fetch_result"   \<comment> \<open>what the network answers to a request\<close>
  isoNow :: string                            \<comment> \<open>\<open>new Date().toISOString()\<close>\<close>

text \<open>A computation that may throw and leaves a trace of log lines and network calls.\<close>

type_synonym 'a eff = "(zoho_error + 'a) \<times> event list"

definition andThen :: "'a eff \<Rightarrow> ('a \<Rightarrow> 'b eff) \<Rightarrow> 'b eff" where
  "andThen m f =
     (case m of
        (Inl e, evs) \<Rightarrow> (Inl e, evs)
      | (Inr x, evs) \<Rightarrow> (case f x of (r, evs') \<Rightarrow> (r, evs @ evs')))"

definition emit :: "event list \<Rightarrow> unit eff" where
  "emit evs = (Inr (), evs)"

definition throw :: "zoho_error \<Rightarrow> 'a eff" where
  "throw e = (Inl e, [])"

definition lift :: "zoho_error + 'a \<Rightarrow> 'a eff" where
  "lift r = (r, [])"

definition getZohoAccessToken :: "world \<Rightarrow> jsval eff" where
  "getZohoAccessToken w =
     (if \<not> configured (ZOHO_CAMPAIGNS_CLIENT_ID w) \<or> \<not> configured (ZOHO_CAMPAIGNS_CLIENT_SECRET w)
         \<or> \<not> configured (ZOHO_CAMPAIGNS_REFRESH_TOKEN w)
      then throw (NotConfigured ''Zoho OAuth credentials not configured'')
      else
        let req = TokenRequest (param (ZOHO_CAMPAIGNS_REFRESH_TOKEN w))
                    (param (ZOHO_CAMPAIGNS_CLIENT_ID w)) (param (ZOHO_CAMPAIGNS_CLIENT_SECRET w))
        in andThen (emit [Fetch req]) (\<lambda>_.
           case upstream w req of
             Rejected m \<Rightarrow> throw (FetchRejected m)
           | Resolved response \<Rightarrow>
               (case json response of
                  None \<Rightarrow> throw BodyNotJson
                | Some data \<Rightarrow>
                    if \<not> ok (status response)
                    then andThen (lift (getProp data ''error'')) (\<lambda>err.
                           throw (TokenRefreshFailed (orElse err (JNum (int (status response))))))
                    else andThen (lift (getProp data ''error'')) (\<lambda>err.
                           if truthy err
                           then throw (TokenRefreshFailed (orElse err (JNum (int (status response)))))
                           else lift (getProp data ''access_token'')))))"

text \<open>
  The argument of the second \<open>console.log\<close>: \<open>accessToken.substring(0, 20)\<close> exists on
  strings only.
\<close>

definition tokenPreview :: "jsval \<Rightarrow> zoho_error + logarg" where
  "tokenPreview accessToken =
     (if truthy accessToken
      then (case accessToken of
              JStr s \<Rightarrow> Inr (LStr (take 20 s @ ''...''))
            | _ \<Rightarrow> Inl (NotAFunction ''accessToken.substring''))
      else Inr (LStr ''NO TOKEN''))"

definition subscribeToZohoCampaigns :: "world \<Rightarrow> jsval \<Rightarrow> jsval \<Rightarrow> jsval eff" where
  "subscribeToZohoCampaigns w email source =
     (if \<not> configured (ZOHO_CAMPAIGNS_LIST_KEY w)
      then throw (NotConfigured ''Zoho Campaigns list key not configured'')
      else
        andThen (getZohoAccessToken w) (\<lambda>accessToken.
        andThen (emit [ConsoleLog [LStr ''Zoho API request for email:'', LVal email]]) (\<lambda>_.
        andThen (lift (tokenPreview accessToken)) (\<lambda>preview.
        andThen (emit [ConsoleLog [LStr ''Access token:'', preview]]) (\<lambda>_.
        let req = BulkRequest accessToken (param (ZOHO_CAMPAIGNS_LIST_KEY w)) email
        in andThen (emit [Fetch req]) (\<lambda>_.
           case upstream w req of
             Rejected m \<Rightarrow> throw (FetchRejected m)
           | Resolved response \<Rightarrow>
               andThen (emit [ConsoleLog [LStr ''Zoho API raw response:'', LStr (bodyText response)]]) (\<lambda>_.
               case json response of
                 None \<Rightarrow>
                   andThen (emit [ConsoleError [LStr ''Failed to parse Zoho response as JSON'']]) (\<lambda>_.
                     throw InvalidResponse)
               | Some data \<Rightarrow>
                   if \<not> ok (status response) then throw (ApiStatusError (status response) data)
                   else andThen (lift (getProp data ''code'')) (\<lambda>code.
                        if truthy code \<and> code \<noteq> JStr ''0''
                        then andThen (lift (getProp data ''message'')) (\<lambda>message.
                               throw (ApiCodeError (orElse message code)))
                        else lift (Inr data)))))))))"

datatype response_body = NoBody | JsonBody "(string \<times> jsval) list"

record http_response =
  statusCode :: nat
  headers :: "(string \<times> string) list"
  content :: response_body

record http_request =
  reqMethod :: string   \<comment> \<open>\<open>req.method\<close>\<close>
  body :: jsval

definition corsHeaders :: "(string \<times> string) list" where
  "corsHeaders = [(''Access-Control-Allow-Origin'', ''*''),
                  (''Access-Control-Allow-Methods'', ''POST, OPTIONS''),
                  (''Access-Control-Allow-Headers'', ''Content-Type'')]"

definition respond :: "nat \<Rightarrow> response_body \<Rightarrow> http_response" where
  "respond code b = \<lparr>statusCode = code, headers = corsHeaders, content = b\<rparr>"

text \<open>
  \<open>email.includes('@')\<close> on a truthy value: substring search on a string, membership on
  an array, and a TypeError on a value that has no \<open>includes\<close>.
\<close>

fun includesAt :: "jsval \<Rightarrow> zoho_error + bool" where
  "includesAt (JStr s) = Inr (CHR ''@'' \<in> set s)"
| "includesAt (JArr xs) = Inr (JStr ''@'' \<in> set xs)"
| "includesAt v = Inl (NotAFunction ''email.includes'')"

definition successMessage :: string where
  "successMessage = ''Thank you! We'' @ [CHR 0x27] @ ''ll notify you as soon as the agenda is available.''"

definition fallbackMessage :: string where
  "fallbackMessage = ''Thank you for your interest! We'' @ [CHR 0x27] @ ''ll be in touch soon.''"

text \<open>The inner \<open>try\<close>/\<open>catch\<close> of the handler: it never throws.\<close>

definition subscribeAndAcknowledge :: "world \<Rightarrow> jsval \<Rightarrow> jsval \<Rightarrow> http_response \<times> event list" where
  "subscribeAndAcknowledge w email emailSource =
     (case subscribeToZohoCampaigns w email emailSource of
        (Inr data, evs) \<Rightarrow>
          (respond 200 (JsonBody [(''message'', JStr successMessage), (''email'', email),
                                  (''source'', emailSource)]),
           evs @ [ConsoleLog [LStr ''Email subscribed to Zoho Campaigns:'', LVal email,
                              LVal emailSource, LStr (isoNow w)]])
      | (Inl zohoError, evs) \<Rightarrow>
          (respond 200 (JsonBody [(''message'', JStr fallbackMessage), (''email'', email),
                                  (''source'', emailSource)]),
           evs @ [ConsoleError [LStr ''Zoho Campaigns error:'', LErr zohoError],
                  ConsoleError [LStr ''Full error:'', LErr zohoError],
                  ConsoleLog [LStr ''Email captured (Zoho failed):'', LVal email,
                              LVal emailSource, LStr (isoNow w)]]))"

text \<open>The outer \<open>catch\<close>.\<close>

definition internalError :: "zoho_error \<Rightarrow> http_response \<times> event list" where
  "internalError e =
     (respond 500 (JsonBody [(''message'', JStr ''An error occurred. Please try again.'')]),
      [ConsoleError [LStr ''Error in email capture:'', LErr e]])"

definition badRequest :: "http_response \<times> event list" where
  "badRequest =
     (respond 400 (JsonBody [(''message'', JStr ''Please provide a valid email address'')]), [])"

definition handler :: "world \<Rightarrow> http_request \<Rightarrow> http_response \<times> event list" where
  "handler w req =
     (if reqMethod req = ''OPTIONS'' then (respond 200 NoBody, [])
      else if reqMethod req \<noteq> ''POST''
      then (respond 405 (JsonBody [(''message'', JStr ''Method not allowed'')]), [])
      else
        (case getProp (body req) ''email'' of
           Inl e \<Rightarrow> internalError e
         | Inr email \<Rightarrow>
             (case getProp (body req) ''source'' of
                Inl e \<Rightarrow> internalError e
              | Inr source \<Rightarrow>
                  if \<not> truthy email then badRequest
                  else (case includesAt email of
                          Inl e \<Rightarrow> internalError e
                        | Inr found \<Rightarrow>
                            if \<not> found then badRequest
                            else subscribeAndAcknowledge w email
                                   (orElse source (JStr ''career-launch-landing''))))))"

definition isFetch :: "event \<Rightarrow> bool" where
  "isFetch ev = (case ev of Fetch r \<Rightarrow> True | _ \<Rightarrow> False)"

section \<open>FormHandler (form-handler.js)\<close>

record api_config =
  endpoint :: string
  timeout :: nat
  maxRetries :: nat
  retryDelay :: nat

definition apiConfig :: api_config where
  "apiConfig = \<lparr>endpoint = ''https://forms.zohopublic.com/api/v1/json/forms/{form_id}/entries'',
                 timeout = 10000, maxRetries = 3, retryDelay = 1000\<rparr>"

text \<open>What the page reads from the browser during one submission.\<close>

record browser =
  hostname :: string
  protocol :: string
  referrer :: string
  userAgent :: string
  isoTime :: string        \<comment> \<open>\<open>new Date().toISOString()\<close>\<close>
  dateNow :: nat           \<comment> \<open>\<open>Date.now()\<close>\<close>
  randomBelow :: bool      \<comment> \<open>\<open>Math.random() < 0.9\<close>\<close>

record submission =
  email :: string
  source :: string
  timestamp :: string
  submissionReferrer :: string
  submissionUserAgent :: string
  event :: string

text \<open>
  A value given to \<open>catch\<close> or to \<open>getErrorMessage\<close>: an error object with its
  \<open>message\<close>, a string, or \<open>null\<close>/\<open>undefined\<close>.
\<close>

datatype thrown = ErrorObject string | Message string | Nullish

text \<open>
  What one \<open>fetch\<close> of \<open>makeApiCall\<close> comes to. \<open>TimedOut\<close>: the timer of
  \<open>apiConfig.timeout\<close> fired first, the controller aborted the request, and \<open>fetch\<close>
  rejected with the abort error. \<open>NetworkFailure\<close>: \<open>fetch\<close> rejected before the timer.
  \<open>Response\<close>: status, status text, and the body read by \<open>response.json()\<close>
  (\<open>Inl\<close> the message of its SyntaxError).
\<close>

datatype fetch_outcome =
    TimedOut string
  | NetworkFailure string
  | Response nat string "string + jsval"

record api_result =
  success :: bool
  data :: jsval
  resultError :: "string option"   \<comment> \<open>\<open>result.error\<close>\<close>

datatype timer = ResetForm | RemoveButtonSuccess | ClearAnnouncement

datatype client_event =
    FetchCall string submission     \<comment> \<open>\<open>fetch(endpoint, {method: 'POST', body})\<close>\<close>
  | Delay nat                       \<comment> \<open>\<open>await this.delay(ms)\<close>\<close>
  | SetTimeout nat timer
  | Console string
  | FocusEmailInput
  | FormReset

text \<open>
  The \<open>try\<close> block of \<open>makeApiCall\<close> for one attempt: the result, or the error caught
  together with \<open>controller.signal.aborted\<close> at that moment.
\<close>

definition attempt :: "fetch_outcome \<Rightarrow> (thrown \<times> bool) + api_result" where
  "attempt outcome =
     (case outcome of
        TimedOut m \<Rightarrow> Inl (ErrorObject m, True)
      | NetworkFailure m \<Rightarrow> Inl (ErrorObject m, False)
      | Response st statusText b \<Rightarrow>
          if \<not> ok st
          then Inl (ErrorObject (''API Error: '' @ showNat st @ '' '' @ statusText), False)
          else (case b of
                  Inl m \<Rightarrow> Inl (ErrorObject m, False)
                | Inr result \<Rightarrow> Inr \<lparr>success = True, data = result, resultError = None\<rparr>))"

text \<open>
  \<open>makeApiCall(payload, retryCount)\<close>; \<open>net k\<close> is what the fetch of the call with
  \<open>retryCount = k\<close> comes to.
\<close>

function makeApiCall ::
  "api_config \<Rightarrow> (nat \<Rightarrow> fetch_outcome) \<Rightarrow> submission \<Rightarrow> nat \<Rightarrow> (thrown + api_result) \<times> client_event list" where
  "makeApiCall cfg net payload retryCount =
     (case attempt (net retryCount) of
        Inr result \<Rightarrow> (Inr result, [FetchCall (endpoint cfg) payload])
      | Inl (err, aborted) \<Rightarrow>
          if retryCount < maxRetries cfg \<and> \<not> aborted
          then (case makeApiCall cfg net payload (retryCount + 1) of
                  (r, evs) \<Rightarrow>
                    (r, FetchCall (endpoint cfg) payload
                        # Delay (retryDelay cfg * (retryCount + 1)) # evs))
          else (Inl err, [FetchCall (endpoint cfg) payload]))"
  by pat_completeness auto
termination
  by (relation "measure (\<lambda>(cfg, net, payload, retryCount). maxRetries cfg - retryCount)") auto

declare makeApiCall.simps [simp del]

definition simulateApiCall :: "browser \<Rightarrow> submission \<Rightarrow> (thrown + api_result) \<times> client_event list" where
  "simulateApiCall b payload =
     (if randomBelow b
      then (Inr \<lparr>success = True,
                 data = JObj [(''id'', JStr (''test-'' @ showNat (dateNow b))),
                              (''email'', JStr (email payload)),
                              (''status'', JStr ''subscribed'')],
                 resultError = None\<rparr>,
            [Console ''Development mode: Simulating Zoho API call'', Delay 1500])
      else (Inl (ErrorObject ''Simulated API failure for testing''),
            [Console ''Development mode: Simulating Zoho API call'', Delay 1500]))"

definition isDevelopment :: "browser \<Rightarrow> bool" where
  "isDevelopment b =
     (hostname b = ''localhost'' \<or> hostname b = ''127.0.0.1'' \<or> protocol b = ''file:''
      \<or> str_includes (hostname b) ''dev'' \<or> str_includes (hostname b) ''staging'')"

definition submitToZoho ::
  "api_config \<Rightarrow> browser \<Rightarrow> (nat \<Rightarrow> fetch_outcome) \<Rightarrow> string \<Rightarrow> (thrown + api_result) \<times> client_event list" where
  "submitToZoho cfg b net dataEmail =
     (let payload = \<lparr>email = dataEmail, source = ''myblueprint-career-launch-landing'',
                      timestamp = isoTime b,
                      submissionReferrer = (if referrer b = [] then ''direct'' else referrer b),
                      submissionUserAgent = userAgent b,
                      event = ''career-launch-agenda-signup''\<rparr>
      in if isDevelopment b then simulateApiCall b payload
         else makeApiCall cfg net payload 0)"

definition msgNetwork :: string where
  "msgNetwork = ''Please check your internet connection and try again.''"

definition msgTimeout :: string where
  "msgTimeout = ''Request timed out. Please try again.''"

definition msgInvalid :: string where
  "msgInvalid = ''Invalid email address. Please check and try again.''"

definition msgRateLimited :: string where
  "msgRateLimited = ''Too many requests. Please wait a moment and try again.''"

definition msgUnavailable :: string where
  "msgUnavailable = ''Service temporarily unavailable. Please try again in a few minutes.''"

definition msgUnknown :: string where
  "msgUnknown = ''Something went wrong. Please try again.''"

text \<open>
  \<open>error?.message || error\<close>: the message of an error object when it is not empty, the
  value itself otherwise. \<open>None\<close> when the result is not a string, where
  \<open>errorMessage.includes\<close> raises a TypeError.
\<close>

definition errorMessageOf :: "thrown \<Rightarrow> string option" where
  "errorMessageOf err =
     (case err of
        ErrorObject m \<Rightarrow> if m \<noteq> [] then Some m else None
      | Message s \<Rightarrow> Some s
      | Nullish \<Rightarrow> None)"

datatype type_error = TypeError

definition getErrorMessage :: "thrown \<Rightarrow> type_error + string" where
  "getErrorMessage err =
     (case errorMessageOf err of
        None \<Rightarrow> Inl TypeError
      | Some errorMessage \<Rightarrow>
          Inr (if str_includes errorMessage ''Failed to fetch'' \<or> str_includes errorMessage ''NetworkError''
               then msgNetwork
               else if str_includes errorMessage ''timeout'' \<or> str_includes errorMessage ''aborted''
               then msgTimeout
               else if str_includes errorMessage ''400'' then msgInvalid
               else if str_includes errorMessage ''429'' then msgRateLimited
               else if str_includes errorMessage ''500'' \<or> str_includes errorMessage ''502''
                       \<or> str_includes errorMessage ''503''
               then msgUnavailable
               else msgUnknown))"

text \<open>
  The fields of the handler and the attributes it writes on the page: the error element
  (\<open>None\<close> when cleared), the success element, the loading state of the button and the
  input, the screen reader announcement.
\<close>

record form_handler =
  config :: api_config
  isSubmitting :: bool
  submitAttempts :: nat
  errorText :: "string option"
  successText :: string
  successVisible :: bool
  loading :: bool
  buttonSuccess :: bool
  announcement :: string

type_synonym 'a ui = "'a \<times> form_handler \<times> client_event list"

text \<open>
  \<open>showError\<close> of the validator, as the handler calls it on the email input. The focus
  request is recorded whether or not the input has the focus already.
\<close>

definition showError :: "string \<Rightarrow> form_handler \<Rightarrow> form_handler \<times> client_event list" where
  "showError message h = (h\<lparr>errorText := Some message\<rparr>, [FocusEmailInput])"

definition clearError :: "form_handler \<Rightarrow> form_handler" where
  "clearError h = h\<lparr>errorText := None\<rparr>"

definition showSuccess :: "string \<Rightarrow> form_handler \<Rightarrow> form_handler" where
  "showSuccess message h = clearError (h\<lparr>successText := message, successVisible := True\<rparr>)"

definition hideSuccess :: "form_handler \<Rightarrow> form_handler" where
  "hideSuccess h = h\<lparr>successVisible := False\<rparr>"

definition setLoadingState :: "bool \<Rightarrow> form_handler \<Rightarrow> form_handler" where
  "setLoadingState l h = h\<lparr>loading := l\<rparr>"

definition announceToScreenReader :: "string \<Rightarrow> form_handler \<Rightarrow> form_handler \<times> client_event list" where
  "announceToScreenReader message h =
     (h\<lparr>announcement := message\<rparr>, [SetTimeout 1000 ClearAnnouncement])"

definition resetForm :: "form_handler \<Rightarrow> form_handler \<times> client_event list" where
  "resetForm h =
     ((hideSuccess (clearError h))\<lparr>buttonSuccess := False, isSubmitting := False,
                                   submitAttempts := 0\<rparr>,
      [FormReset])"

definition handleSuccess :: "form_handler \<Rightarrow> form_handler \<times> client_event list" where
  "handleSuccess h =
     (case announceToScreenReader
             ''Email submitted successfully. You will receive notifications about the career launch agenda.''
             (showSuccess successMessage h) of
        (h', evs) \<Rightarrow>
          (h'\<lparr>buttonSuccess := True\<rparr>,
           evs @ [SetTimeout 5000 ResetForm, SetTimeout 3000 RemoveButtonSuccess]))"

text \<open>\<open>handleError(error)\<close>; a TypeError of \<open>getErrorMessage\<close> leaves the page as it is.\<close>

definition handleError :: "thrown \<Rightarrow> form_handler \<Rightarrow> (type_error + unit) ui" where
  "handleError err h =
     (case getErrorMessage err of
        Inl t \<Rightarrow> (Inl t, h, [])
      | Inr message \<Rightarrow>
          (case showError message h of
             (h1, evs1) \<Rightarrow>
               (case announceToScreenReader (''Form submission failed: '' @ message) h1 of
                  (h2, evs2) \<Rightarrow> (Inr (), h2, evs1 @ evs2 @ [FocusEmailInput]))))"

record form_validation =
  formValid :: bool
  emailError :: "string option"   \<comment> \<open>\<open>errors.email\<close>\<close>
  dataEmail :: "string option"    \<comment> \<open>\<open>data.email\<close>\<close>

definition validateFormData :: "string option \<Rightarrow> form_validation" where
  "validateFormData formEmail =
     (let emailResult = validateEmail formEmail
      in if \<not> isValid emailResult
         then \<lparr>formValid = False, emailError = error emailResult, dataEmail = None\<rparr>
         else \<lparr>formValid = True, emailError = None, dataEmail = Some (value emailResult)\<rparr>)"

definition showValidationErrors :: "string option \<Rightarrow> form_handler \<Rightarrow> form_handler \<times> client_event list" where
  "showValidationErrors emailErr h =
     (case emailErr of
        None \<Rightarrow> (h, [])
      | Some m \<Rightarrow> if m = [] then (h, [])
                  else (case showError m h of (h', evs) \<Rightarrow> (h', evs @ [FocusEmailInput])))"

text \<open>
  The \<open>try\<close>/\<open>catch\<close> of \<open>handleSubmit\<close> once \<open>submitToZoho\<close> has settled with \<open>r\<close>.
\<close>

definition settle :: "thrown + api_result \<Rightarrow> form_handler \<Rightarrow> (type_error + unit) ui" where
  "settle r h =
     (case r of
        Inr result \<Rightarrow>
          if success result
          then (case handleSuccess h of
                  (h', evs) \<Rightarrow> (Inr (), h', evs @ [Console ''Conversion tracked: email_signup_success'']))
          else handleError (Message (case resultError result of
                                       None \<Rightarrow> ''Submission failed''
                                     | Some m \<Rightarrow> if m = [] then ''Submission failed'' else m)) h
      | Inl err \<Rightarrow>
          (case getErrorMessage err of
             Inl t \<Rightarrow> (Inl t, h, [Console ''Form submission error:''])
           | Inr message \<Rightarrow>
               (case handleError (Message message) h of
                  (r', h', evs) \<Rightarrow> (r', h', Console ''Form submission error:'' # evs))))"

text \<open>
  \<open>handleSubmit(e)\<close>, after \<open>e.preventDefault()\<close>. \<open>formEmail\<close> is what \<open>new FormData(this.form).get('email')\<close>
  gives when the call is made. The result says whether the call returned or threw, the
  handler after the call, and what the call did, in order.
\<close>

definition handleSubmit ::
  "browser \<Rightarrow> (nat \<Rightarrow> fetch_outcome) \<Rightarrow> string option \<Rightarrow> form_handler \<Rightarrow> (type_error + unit) ui" where
  "handleSubmit b net formEmail h =
     (if isSubmitting h then (Inr (), h, [])
      else
        let validation = validateFormData formEmail
        in if \<not> formValid validation
           then (case showValidationErrors (emailError validation) h of
                   (h', evs) \<Rightarrow> (Inr (), h', evs))
           else
             (case submitToZoho (config h) b net (case dataEmail validation of None \<Rightarrow> [] | Some e \<Rightarrow> e) of
                (r, evs) \<Rightarrow>
                  (case settle r (setLoadingState True (h\<lparr>isSubmitting := True\<rparr>)) of
                     (c, h', evs') \<Rightarrow>
                       (c, setLoadingState False (h'\<lparr>isSubmitting := False\<rparr>), evs @ evs'))))"

text \<open>
  The part of \<open>handleSubmit\<close> that runs before its first \<open>await\<close>: the handler as it is
  while the request is pending, and whether a request was started.
\<close>

definition handleSubmitBegin :: "string option \<Rightarrow> form_handler \<Rightarrow> bool \<times> form_handler \<times> client_event list" where
  "handleSubmitBegin formEmail h =
     (if isSubmitting h then (False, h, [])
      else
        let validation = validateFormData formEmail
        in if \<not> formValid validation
           then (case showValidationErrors (emailError validation) h of
                   (h', evs) \<Rightarrow> (False, h', evs))
           else (True, setLoadingState True (h\<lparr>isSubmitting := True\<rparr>), []))"

text \<open>
  The click listener of the submit button: the click submits the form unless the listener
  prevents the default action.
\<close>

definition submitButtonClick ::
  "browser \<Rightarrow> (nat \<Rightarrow> fetch_outcome) \<Rightarrow> string option \<Rightarrow> form_handler \<Rightarrow> (type_error + unit) ui" where
  "submitButtonClick b net formEmail h =
     (if isSubmitting h then (Inr (), h, []) else handleSubmit b net formEmail h)"

definition isFetchCall :: "client_event \<Rightarrow> bool" where
  "isFetchCall ev = (case ev of FetchCall url p \<Rightarrow> True | _ \<Rightarrow> False)"

definition attempts :: "client_event list \<Rightarrow> nat" where
  "attempts evs = length (filter isFetchCall evs)"

definition delays :: "client_event list \<Rightarrow> nat list" where
  "delays evs = concat (map (\<lambda>ev. case ev of Delay ms \<Rightarrow> [ms] | _ \<Rightarrow> []) evs)"



text \<open>One of the three OAuth variables is unset or empty.\<close>

definition credentialsAbsent :: "world \<Rightarrow> bool" where
  "credentialsAbsent w =
     (\<not> configured (ZOHO_CAMPAIGNS_CLIENT_ID w) \<or> \<not> configured (ZOHO_CAMPAIGNS_CLIENT_SECRET w)
      \<or> \<not> configured (ZOHO_CAMPAIGNS_REFRESH_TOKEN w))"

section \<open>Example inputs\<close>

text \<open>The double quote.\<close>

definition dq :: string where
  "dq = [CHR 0x22]"

text \<open>An upstream that refreshes the token and answers the bulk call with HTTP 500.\<close>

definition bulk500 :: world where
  "bulk500 =
     \<lparr>ZOHO_CAMPAIGNS_CLIENT_ID = Some ''id'', ZOHO_CAMPAIGNS_CLIENT_SECRET = Some ''secret'',
      ZOHO_CAMPAIGNS_REFRESH_TOKEN = Some ''refresh'', ZOHO_CAMPAIGNS_LIST_KEY = Some ''list'',
      upstream = (\<lambda>r. case r of
         TokenRequest rt cid cs \<Rightarrow>
           Resolved \<lparr>status = 200, bodyText = ''{'' @ dq @ ''access_token'' @ dq @ '':'' @ dq @ ''tok'' @ dq @ ''}'',
                     json = Some (JObj [(''access_token'', JStr ''tok'')])\<rparr>
       | BulkRequest tok lk ids \<Rightarrow>
           Resolved \<lparr>status = 500, bodyText = ''{}'', json = Some (JObj [])\<rparr>),
      isoNow = ''2025-01-01T00:00:00.000Z''\<rparr>"

definition noSecret :: world where
  "noSecret = bulk500\<lparr>ZOHO_CAMPAIGNS_CLIENT_SECRET := None\<rparr>"

definition janePost :: http_request where
  "janePost = \<lparr>reqMethod = ''POST'', body = JObj [(''email'', JStr ''jane.doe@schoolboard.org'')]\<rparr>"

definition janeGet :: http_request where
  "janeGet = \<lparr>reqMethod = ''GET'', body = JObj [(''email'', JStr ''jane.doe@schoolboard.org'')]\<rparr>"

definition alwaysTimeout :: "nat \<Rightarrow> fetch_outcome" where
  "alwaysTimeout k = TimedOut ''The user aborted a request.''"

definition always400 :: "nat \<Rightarrow> fetch_outcome" where
  "always400 k = Response 400 ''Bad Request'' (Inr (JObj []))"

definition examplePayload :: submission where
  "examplePayload =
     \<lparr>email = ''jane.doe@schoolboard.org'', source = ''myblueprint-career-launch-landing'',
      timestamp = ''2025-01-01T00:00:00.000Z'', submissionReferrer = ''direct'',
      submissionUserAgent = ''Mozilla/5.0'', event = ''career-launch-agenda-signup''\<rparr>"

definition production :: browser where
  "production =
     \<lparr>hostname = ''www.myblueprint.ca'', protocol = ''https:'', referrer = [],
      userAgent = ''Mozilla/5.0'', isoTime = ''2025-01-01T00:00:00.000Z'',
      dateNow = 1735689600000, randomBelow = True\<rparr>"

definition idle :: form_handler where
  "idle =
     \<lparr>config = apiConfig, isSubmitting = False, submitAttempts = 0, errorText = None,
      successText = [], successVisible = False, loading = False, buttonSuccess = False,
      announcement = []\<rparr>"

section \<open>The validator\<close>

lemma length_toLowerCase: "length (toLowerCase s) = length s"
  by (simp add: toLowerCase_def)

lemma trim_replicate:
  "trim (replicate n c) = (if isWhiteSpace c then [] else replicate n c)"
  by (simp add: trim_def dropWhile_replicate)

lemma validateEmail_value:
  "value (validateEmail (Some s)) = toLowerCase (trim s)"
  by (simp add: validateEmail_def Let_def toLowerCase_def trim_def)

lemma validateEmail_flag:
  "isValid (validateEmail e) = (error (validateEmail e) = None)"
  by (simp add: validateEmail_def Let_def)

text \<open>
  C5, as stated: every string longer than 254 characters is answered with \<open>TOO_LONG\<close>.
  The code trims first and tests for emptiness before it tests the length: 255 spaces
  are answered with \<open>REQUIRED\<close>.
\<close>

theorem validateEmail_too_long_counterexample:
  "254 < length (replicate 255 CHR '' '') \<and>
   error (validateEmail (Some (replicate 255 CHR '' ''))) = Some REQUIRED \<and>
   error (validateEmail (Some (replicate 255 CHR '' ''))) \<noteq> Some TOO_LONG"
  by (simp add: validateEmail_def Let_def trim_replicate isWhiteSpace_def toLowerCase_def
        REQUIRED_def TOO_LONG_def)

text \<open>
  C5, amended: every string whose trimmed form is longer than 254 characters is answered
  with \<open>TOO_LONG\<close>; the result is invalid and carries the normalized value.
\<close>

theorem validateEmail_too_long:
  "254 < length (trim s) \<Longrightarrow>
   validateEmail (Some s) = \<lparr>isValid = False, error = Some TOO_LONG, value = toLowerCase (trim s)\<rparr>"
proof -
  assume len: "254 < length (trim s)"
  then have ne: "s \<noteq> []" by (auto simp: trim_def)
  from len have "toLowerCase (trim s) \<noteq> []" by (auto simp: toLowerCase_def)
  with len ne show ?thesis
    by (simp add: validateEmail_def Let_def length_toLowerCase)
qed

theorem validateEmail_too_long_witness:
  "254 < length (trim (replicate 255 CHR ''a'')) \<and>
   error (validateEmail (Some (replicate 255 CHR ''a''))) = Some TOO_LONG"
proof -
  have h: "254 < length (trim (replicate 255 CHR ''a''))"
    by (simp add: trim_replicate isWhiteSpace_def)
  show ?thesis using h validateEmail_too_long [OF h] by simp
qed

text \<open>
  C6: \<open>user@example.com\<close> passes the format check and is then rejected by the suspicious
  patterns (the fifth one, \<open>/example\.com$/i\<close>, and no other) with the error of an invalid
  format; \<open>jane.doe@schoolboard.org\<close> is valid.
\<close>

theorem validateEmail_examples:
  "validateEmail (Some ''user@example.com'') =
     \<lparr>isValid = False, error = Some INVALID_EMAIL, value = ''user@example.com''\<rparr> \<and>
   test emailRegex ''user@example.com'' \<and>
   map (\<lambda>pattern. test pattern ''user@example.com'') suspiciousPatterns =
     [False, False, False, False, True, False, False, False, False, False] \<and>
   validateEmail (Some ''jane.doe@schoolboard.org'') =
     \<lparr>isValid = True, error = None, value = ''jane.doe@schoolboard.org''\<rparr>"
  by code_simp

text \<open>
  C7: for every input string the result is valid exactly when its error is null, and its
  value is the trimmed, lowercased input whether or not validation succeeded.
\<close>

theorem validateEmail_invariant:
  "isValid (validateEmail (Some s)) = (error (validateEmail (Some s)) = None) \<and>
   value (validateEmail (Some s)) = toLowerCase (trim s)"
  using validateEmail_flag validateEmail_value by simp

theorem validateEmail_invariant_witness:
  "isValid (validateEmail (Some ''  Jane.Doe@SchoolBoard.org '')) =
     (error (validateEmail (Some ''  Jane.Doe@SchoolBoard.org '')) = None) \<and>
   value (validateEmail (Some ''  Jane.Doe@SchoolBoard.org '')) = ''jane.doe@schoolboard.org''"
proof -
  have "toLowerCase (trim ''  Jane.Doe@SchoolBoard.org '') = ''jane.doe@schoolboard.org''"
    by code_simp
  then show ?thesis
    using validateEmail_invariant [of "''  Jane.Doe@SchoolBoard.org ''"] by simp
qed

section \<open>The serverless function\<close>

lemma handler_accepted:
  "reqMethod req = ''POST'' \<Longrightarrow> getProp (body req) ''email'' = Inr em \<Longrightarrow>
   getProp (body req) ''source'' = Inr src \<Longrightarrow> truthy em \<Longrightarrow> includesAt em = Inr True \<Longrightarrow>
   handler w req = subscribeAndAcknowledge w em (orElse src (JStr ''career-launch-landing''))"
  by (simp add: handler_def)

lemma subscribeAndAcknowledge_failure:
  "fst (subscribeToZohoCampaigns w em src) = Inl err \<Longrightarrow>
   subscribeAndAcknowledge w em src =
     (respond 200 (JsonBody [(''message'', JStr fallbackMessage), (''email'', em), (''source'', src)]),
      snd (subscribeToZohoCampaigns w em src)
        @ [ConsoleError [LStr ''Zoho Campaigns error:'', LErr err],
           ConsoleError [LStr ''Full error:'', LErr err],
           ConsoleLog [LStr ''Email captured (Zoho failed):'', LVal em, LVal src, LStr (isoNow w)]])"
  by (cases "subscribeToZohoCampaigns w em src") (auto simp: subscribeAndAcknowledge_def)

lemma fallbackMessage_nonempty: "fallbackMessage \<noteq> []"
  by (simp add: fallbackMessage_def)

lemma janePost_accepted:
  "reqMethod janePost = ''POST''"
  "getProp (body janePost) ''email'' = Inr (JStr ''jane.doe@schoolboard.org'')"
  "getProp (body janePost) ''source'' = Inr JUndefined"
  "truthy (JStr ''jane.doe@schoolboard.org'')"
  "includesAt (JStr ''jane.doe@schoolboard.org'') = Inr True"
  by (simp_all add: janePost_def)

text \<open>
  The bulk call answered with a status outside 200 to 299 makes
  \<open>subscribeToZohoCampaigns\<close> throw, once the list key is set and the token is there.
\<close>

lemma bulk_status_error:
  assumes "configured (ZOHO_CAMPAIGNS_LIST_KEY w)"
    and "getZohoAccessToken w = (Inr tok, evs)"
    and "tokenPreview tok = Inr pv"
    and "upstream w (BulkRequest tok (param (ZOHO_CAMPAIGNS_LIST_KEY w)) em) = Resolved r"
    and "\<not> ok (status r)"
  shows "\<exists>e. fst (subscribeToZohoCampaigns w em src) = Inl e"
  using assms
  by (cases "json r")
     (simp_all add: subscribeToZohoCampaigns_def andThen_def emit_def lift_def throw_def)

text \<open>
  C1: when the upstream subscription fails, for whatever reason, a \<open>POST\<close> that carries an
  email is answered with HTTP 200 and the non-empty fallback acknowledgment, with the
  email and the source echoed; the failure goes to the error log.
\<close>

theorem handler_soft_failure:
  assumes "reqMethod req = ''POST''"
    and "getProp (body req) ''email'' = Inr em"
    and "getProp (body req) ''source'' = Inr src"
    and "truthy em"
    and "includesAt em = Inr True"
    and "fst (subscribeToZohoCampaigns w em (orElse src (JStr ''career-launch-landing''))) = Inl err"
  shows "statusCode (fst (handler w req)) = 200 \<and>
         ok (statusCode (fst (handler w req))) \<and>
         content (fst (handler w req)) =
           JsonBody [(''message'', JStr fallbackMessage), (''email'', em),
                     (''source'', orElse src (JStr ''career-launch-landing''))] \<and>
         fallbackMessage \<noteq> [] \<and>
         ConsoleError [LStr ''Zoho Campaigns error:'', LErr err] \<in> set (snd (handler w req))"
  using assms
  by (simp add: handler_accepted subscribeAndAcknowledge_failure respond_def ok_def
        fallbackMessage_nonempty)

theorem handler_soft_failure_witness:
  "fst (subscribeToZohoCampaigns bulk500 (JStr ''jane.doe@schoolboard.org'')
          (JStr ''career-launch-landing'')) = Inl (ApiStatusError 500 (JObj [])) \<and>
   statusCode (fst (handler bulk500 janePost)) = 200 \<and>
   content (fst (handler bulk500 janePost)) =
     JsonBody [(''message'', JStr fallbackMessage),
               (''email'', JStr ''jane.doe@schoolboard.org''),
               (''source'', JStr ''career-launch-landing'')] \<and>
   ConsoleError [LStr ''Zoho Campaigns error:'', LErr (ApiStatusError 500 (JObj []))]
     \<in> set (snd (handler bulk500 janePost))"
proof -
  have h6: "fst (subscribeToZohoCampaigns bulk500 (JStr ''jane.doe@schoolboard.org'')
              (orElse JUndefined (JStr ''career-launch-landing'')))
            = Inl (ApiStatusError 500 (JObj []))"
    by (simp add: subscribeToZohoCampaigns_def getZohoAccessToken_def configured_def andThen_def
          emit_def throw_def lift_def tokenPreview_def ok_def param_def orElse_def bulk500_def)
  show ?thesis
    using handler_soft_failure [OF janePost_accepted h6] h6 by (simp add: orElse_def)
qed

lemma getZohoAccessToken_unconfigured:
  "credentialsAbsent w \<Longrightarrow>
   getZohoAccessToken w = (Inl (NotConfigured ''Zoho OAuth credentials not configured''), [])"
  by (auto simp: getZohoAccessToken_def throw_def credentialsAbsent_def)

lemma subscribe_unconfigured:
  "credentialsAbsent w \<Longrightarrow>
   subscribeToZohoCampaigns w em src =
     (if configured (ZOHO_CAMPAIGNS_LIST_KEY w)
      then (Inl (NotConfigured ''Zoho OAuth credentials not configured''), [])
      else (Inl (NotConfigured ''Zoho Campaigns list key not configured''), []))"
  by (simp add: subscribeToZohoCampaigns_def getZohoAccessToken_unconfigured andThen_def throw_def)

text \<open>
  C4: when one of the three OAuth credentials is absent, \<open>getZohoAccessToken\<close> throws
  before any request is built, the handler makes no outbound call at all (so nothing is
  retried), and a \<open>POST\<close> that carries an email is still answered with HTTP 200 and the
  fallback acknowledgment.
\<close>

theorem missing_credentials_soft_success:
  assumes "reqMethod req = ''POST''"
    and "getProp (body req) ''email'' = Inr em"
    and "getProp (body req) ''source'' = Inr src"
    and "truthy em"
    and "includesAt em = Inr True"
    and "credentialsAbsent w"
  shows "getZohoAccessToken w = (Inl (NotConfigured ''Zoho OAuth credentials not configured''), []) \<and>
         filter isFetch (snd (handler w req)) = [] \<and>
         fst (handler w req) =
           respond 200 (JsonBody [(''message'', JStr fallbackMessage), (''email'', em),
                                  (''source'', orElse src (JStr ''career-launch-landing''))]) \<and>
         statusCode (fst (handler w req)) = 200"
proof -
  let ?src = "orElse src (JStr ''career-launch-landing'')"
  have "\<exists>e. subscribeToZohoCampaigns w em ?src = (Inl e, [])"
    using assms(6) by (simp add: subscribe_unconfigured)
  then obtain e where e: "subscribeToZohoCampaigns w em ?src = (Inl e, [])" by blast
  have "handler w req = subscribeAndAcknowledge w em ?src"
    using assms by (simp add: handler_accepted)
  with e show ?thesis
    using assms(6)
    by (simp add: subscribeAndAcknowledge_failure getZohoAccessToken_unconfigured isFetch_def
          respond_def)
qed

theorem missing_credentials_soft_success_witness:
  "credentialsAbsent noSecret \<and>
   filter isFetch (snd (handler noSecret janePost)) = [] \<and>
   statusCode (fst (handler noSecret janePost)) = 200 \<and>
   content (fst (handler noSecret janePost)) =
     JsonBody [(''message'', JStr fallbackMessage),
               (''email'', JStr ''jane.doe@schoolboard.org''),
               (''source'', JStr ''career-launch-landing'')]"
proof -
  have h: "credentialsAbsent noSecret"
    by (simp add: credentialsAbsent_def noSecret_def configured_def)
  show ?thesis
    using missing_credentials_soft_success [OF janePost_accepted h] h
    by (simp add: orElse_def respond_def)
qed

text \<open>
  C10: a request whose method is neither \<open>POST\<close> nor \<open>OPTIONS\<close> is answered with status
  405 and the JSON body \<open>{message: 'Method not allowed'}\<close>, whatever its body; nothing is
  logged and no outbound call is made.
\<close>

theorem method_not_allowed:
  assumes "reqMethod req \<noteq> ''POST''" and "reqMethod req \<noteq> ''OPTIONS''"
  shows "handler w req =
           (\<lparr>statusCode = 405, headers = corsHeaders,
              content = JsonBody [(''message'', JStr ''Method not allowed'')]\<rparr>, [])"
  using assms by (simp add: handler_def respond_def)

theorem method_not_allowed_witness:
  "reqMethod janeGet = ''GET'' \<and>
   statusCode (fst (handler bulk500 janeGet)) = 405 \<and>
   content (fst (handler bulk500 janeGet)) = JsonBody [(''message'', JStr ''Method not allowed'')] \<and>
   snd (handler bulk500 janeGet) = []"
proof -
  have m: "reqMethod janeGet \<noteq> ''POST''" "reqMethod janeGet \<noteq> ''OPTIONS''"
    by (simp_all add: janeGet_def)
  show ?thesis using method_not_allowed [OF m, of bulk500] by (simp add: janeGet_def)
qed

section \<open>Retries of the form handler\<close>

lemma makeApiCall_success:
  "attempt (net k) = Inr r \<Longrightarrow> makeApiCall cfg net p k = (Inr r, [FetchCall (endpoint cfg) p])"
  by (subst makeApiCall.simps) simp

lemma makeApiCall_aborted:
  "attempt (net k) = Inl (e, True) \<Longrightarrow> makeApiCall cfg net p k = (Inl e, [FetchCall (endpoint cfg) p])"
  by (subst makeApiCall.simps) simp

lemma makeApiCall_exhausted:
  "attempt (net k) = Inl (e, a) \<Longrightarrow> \<not> k < maxRetries cfg \<Longrightarrow>
   makeApiCall cfg net p k = (Inl e, [FetchCall (endpoint cfg) p])"
  by (subst makeApiCall.simps) simp

lemma makeApiCall_retry:
  "attempt (net k) = Inl (e, False) \<Longrightarrow> k < maxRetries cfg \<Longrightarrow>
   makeApiCall cfg net p k =
     (fst (makeApiCall cfg net p (k + 1)),
      FetchCall (endpoint cfg) p # Delay (retryDelay cfg * (k + 1)) # snd (makeApiCall cfg net p (k + 1)))"
  by (subst makeApiCall.simps) (simp split: prod.splits)

lemma attempts_simps:
  "attempts [] = 0"
  "attempts (FetchCall u p # evs) = Suc (attempts evs)"
  "attempts (Delay n # evs) = attempts evs"
  by (simp_all add: attempts_def isFetchCall_def)

lemma delays_simps:
  "delays [] = []"
  "delays (FetchCall u p # evs) = delays evs"
  "delays (Delay n # evs) = n # delays evs"
  by (simp_all add: delays_def)

text \<open>
  When every attempt fails without the timer having fired, the call with retry count
  \<open>k\<close> makes the remaining \<open>maxRetries - k + 1\<close> attempts.
\<close>

lemma persistent_failure_from:
  assumes fail: "\<forall>j\<le>maxRetries cfg. \<exists>e. attempt (net j) = Inl (e, False)"
  shows "k \<le> maxRetries cfg \<Longrightarrow>
         attempts (snd (makeApiCall cfg net p k)) = maxRetries cfg - k + 1 \<and>
         delays (snd (makeApiCall cfg net p k)) = map (\<lambda>i. retryDelay cfg * i) [k + 1..<maxRetries cfg + 1] \<and>
         (\<exists>e. attempt (net (maxRetries cfg)) = Inl (e, False) \<and> fst (makeApiCall cfg net p k) = Inl e)"
proof (induction "maxRetries cfg - k" arbitrary: k)
  case 0
  then have k: "k = maxRetries cfg" by simp
  from fail obtain e where e: "attempt (net (maxRetries cfg)) = Inl (e, False)" by blast
  have "makeApiCall cfg net p (maxRetries cfg) = (Inl e, [FetchCall (endpoint cfg) p])"
    using makeApiCall_exhausted [where net = net and k = "maxRetries cfg", OF e] by simp
  then show ?case using e k by (simp add: attempts_simps delays_simps)
next
  case (Suc d)
  then have lt: "k < maxRetries cfg" by simp
  from fail lt obtain e where e: "attempt (net k) = Inl (e, False)"
    by (meson less_imp_le_nat)
  let ?next = "makeApiCall cfg net p (k + 1)"
  have ih1: "attempts (snd ?next) = maxRetries cfg - (k + 1) + 1"
    and ih2: "delays (snd ?next) = map (\<lambda>i. retryDelay cfg * i) [k + 1 + 1..<maxRetries cfg + 1]"
    and ih3: "\<exists>e. attempt (net (maxRetries cfg)) = Inl (e, False) \<and> fst ?next = Inl e"
    using Suc(1) [of "k + 1"] Suc(2) lt by simp_all
  have step: "makeApiCall cfg net p k =
      (fst ?next, FetchCall (endpoint cfg) p # Delay (retryDelay cfg * (k + 1)) # snd ?next)"
    using makeApiCall_retry [where net = net and k = k, OF e lt] .
  have up: "[k + 1..<maxRetries cfg + 1] = (k + 1) # [k + 1 + 1..<maxRetries cfg + 1]"
    using lt by (simp add: upt_conv_Cons)
  have a: "attempts (snd (makeApiCall cfg net p k)) = maxRetries cfg - k + 1"
    using ih1 lt by (simp add: step attempts_simps)
  have d: "delays (snd (makeApiCall cfg net p k)) = map (\<lambda>i. retryDelay cfg * i) [k + 1..<maxRetries cfg + 1]"
    unfolding up using ih2 by (simp add: step delays_simps)
  have f: "fst (makeApiCall cfg net p k) = fst ?next"
    by (simp add: step)
  show ?case using a d f ih3 by simp
qed

section \<open>Error sentences\<close>

lemma getErrorMessage_cases:
  "errorMessageOf err = Some m \<Longrightarrow>
   getErrorMessage err = Inr msgNetwork \<or> getErrorMessage err = Inr msgTimeout \<or>
   getErrorMessage err = Inr msgInvalid \<or> getErrorMessage err = Inr msgRateLimited \<or>
   getErrorMessage err = Inr msgUnavailable \<or> getErrorMessage err = Inr msgUnknown"
  by (simp add: getErrorMessage_def)



text \<open>
  What \<open>makeApiCall\<close> throws is an error object, and its message is not empty when the
  browser's own messages are not.
\<close>

lemma attempt_throws_message:
  assumes "attempt outcome = Inl (err, a)"
    and "case outcome of TimedOut m \<Rightarrow> m \<noteq> [] | NetworkFailure m \<Rightarrow> m \<noteq> []
         | Response st t b \<Rightarrow> (case b of Inl m \<Rightarrow> m \<noteq> [] | Inr v \<Rightarrow> True)"
  shows "\<exists>m. errorMessageOf err = Some m"
proof (cases outcome)
  case (TimedOut m)
  with assms show ?thesis by (auto simp: attempt_def errorMessageOf_def)
next
  case (NetworkFailure m)
  with assms show ?thesis by (auto simp: attempt_def errorMessageOf_def)
next
  case (Response st t b)
  show ?thesis
  proof (cases "ok st")
    case False
    with Response assms(1) have "err = ErrorObject (''API Error: '' @ showNat st @ '' '' @ t)"
      by (auto simp: attempt_def)
    then show ?thesis by (simp add: errorMessageOf_def)
  next
    case True
    with Response assms show ?thesis
      by (cases b) (auto simp: attempt_def errorMessageOf_def)
  qed
qed




section \<open>The submission as the page shows it\<close>

lemma sentence_again:
  "getErrorMessage (Message msgNetwork) = Inr msgUnknown"
  "getErrorMessage (Message msgTimeout) = Inr msgUnknown"
  "getErrorMessage (Message msgInvalid) = Inr msgUnknown"
  "getErrorMessage (Message msgRateLimited) = Inr msgUnknown"
  "getErrorMessage (Message msgUnavailable) = Inr msgUnknown"
  "getErrorMessage (Message msgUnknown) = Inr msgUnknown"
  by code_simp+

text \<open>
  The \<open>catch\<close> of \<open>handleSubmit\<close> maps the error to a sentence and \<open>handleError\<close> maps
  that sentence once more: the sentence shown is always the Unknown one.
\<close>

lemma settle_error:
  assumes "errorMessageOf err = Some m"
  shows "\<exists>evs. settle (Inl err) h = (Inr (), h\<lparr>errorText := Some msgUnknown,
            announcement := ''Form submission failed: '' @ msgUnknown\<rparr>, evs)"
  using getErrorMessage_cases [OF assms]
  by (auto simp: settle_def handleError_def sentence_again showError_def announceToScreenReader_def)

lemma handleSubmit_idle_valid:
  "\<not> isSubmitting h \<Longrightarrow> validateEmail fe = \<lparr>isValid = True, error = None, value = v\<rparr> \<Longrightarrow>
   handleSubmit b net fe h =
     (case submitToZoho (config h) b net v of
        (r, evs) \<Rightarrow>
          (case settle r (setLoadingState True (h\<lparr>isSubmitting := True\<rparr>)) of
             (c, h', evs') \<Rightarrow> (c, setLoadingState False (h'\<lparr>isSubmitting := False\<rparr>), evs @ evs')))"
  by (simp add: handleSubmit_def validateFormData_def Let_def)

lemma handleSubmit_error:
  assumes "\<not> isSubmitting h"
    and "validateEmail fe = \<lparr>isValid = True, error = None, value = v\<rparr>"
    and "fst (submitToZoho (config h) b net v) = Inl err"
    and "errorMessageOf err = Some m"
  shows "\<exists>evs. handleSubmit b net fe h =
           (Inr (), h\<lparr>isSubmitting := False, loading := False, errorText := Some msgUnknown,
                      announcement := ''Form submission failed: '' @ msgUnknown\<rparr>,
            snd (submitToZoho (config h) b net v) @ evs)"
proof -
  obtain evs0 where s0: "submitToZoho (config h) b net v = (Inl err, evs0)"
    using assms(3) by (cases "submitToZoho (config h) b net v") auto
  from settle_error [OF assms(4), of "h\<lparr>isSubmitting := True, loading := True\<rparr>"]
  obtain evs1 where s1: "settle (Inl err) (h\<lparr>isSubmitting := True, loading := True\<rparr>) =
      (Inr (), h\<lparr>isSubmitting := True, loading := True, errorText := Some msgUnknown,
            announcement := ''Form submission failed: '' @ msgUnknown\<rparr>, evs1)"
    by auto
  have "handleSubmit b net fe h =
      (Inr (), h\<lparr>isSubmitting := False, loading := False, errorText := Some msgUnknown,
                      announcement := ''Form submission failed: '' @ msgUnknown\<rparr>, evs0 @ evs1)"
    by (simp add: handleSubmit_idle_valid [OF assms(1,2)] s0 setLoadingState_def s1)
  then show ?thesis by (simp add: s0)
qed

text \<open>A response with a status from 200 to 299 and a JSON body shows the success message.\<close>

lemma handleSubmit_success:
  assumes "\<not> isSubmitting h"
    and "validateEmail fe = \<lparr>isValid = True, error = None, value = v\<rparr>"
    and "\<not> isDevelopment b"
    and "net 0 = Response st t (Inr d)"
    and "ok st"
  shows "\<exists>h' evs. handleSubmit b net fe h = (Inr (), h', evs) \<and> attempts evs = 1 \<and>
           successVisible h' \<and> successText h' = successMessage \<and> errorText h' = None \<and>
           \<not> isSubmitting h'"
proof -
  have a: "attempt (net 0) = Inr \<lparr>success = True, data = d, resultError = None\<rparr>"
    using assms(4,5) by (simp add: attempt_def)
  show ?thesis
    using assms(3)
    by (simp add: handleSubmit_idle_valid [OF assms(1,2)] submitToZoho_def Let_def
          makeApiCall_success [where net = net and k = 0, OF a] settle_def handleSuccess_def
          announceToScreenReader_def showSuccess_def clearError_def setLoadingState_def
          attempts_def isFetchCall_def)
qed

lemma validate_jane:
  "validateEmail (Some ''jane.doe@schoolboard.org'') =
     \<lparr>isValid = True, error = None, value = ''jane.doe@schoolboard.org''\<rparr>"
  by code_simp

lemma production_not_development: "\<not> isDevelopment production"
  by (simp add: isDevelopment_def production_def)

lemma submitToZoho_production:
  "submitToZoho apiConfig production net ''jane.doe@schoolboard.org'' =
     makeApiCall apiConfig net examplePayload 0"
proof -
  have p: "\<lparr>email = ''jane.doe@schoolboard.org'', source = ''myblueprint-career-launch-landing'',
          timestamp = isoTime production,
          submissionReferrer = (if referrer production = [] then ''direct'' else referrer production),
          submissionUserAgent = userAgent production,
          event = ''career-launch-agenda-signup''\<rparr> = examplePayload"
    by (simp add: examplePayload_def production_def)
  show ?thesis
    unfolding submitToZoho_def Let_def p
    using production_not_development by (rule if_not_P)
qed

lemma attempt_alwaysTimeout:
  "attempt (alwaysTimeout k) = Inl (ErrorObject ''The user aborted a request.'', True)"
  by (simp add: alwaysTimeout_def attempt_def)

lemma attempt_always400:
  "attempt (always400 k) = Inl (ErrorObject ''API Error: 400 Bad Request'', False)"
proof -
  have "showNat 400 = ''400''" by code_simp
  then show ?thesis by (simp add: always400_def attempt_def ok_def)
qed

lemma makeApiCall_always400:
  "makeApiCall apiConfig always400 examplePayload 0 =
     (Inl (ErrorObject ''API Error: 400 Bad Request''),
      [FetchCall (endpoint apiConfig) examplePayload, Delay 1000,
       FetchCall (endpoint apiConfig) examplePayload, Delay 2000,
       FetchCall (endpoint apiConfig) examplePayload, Delay 3000,
       FetchCall (endpoint apiConfig) examplePayload])"
proof -
  have m: "maxRetries apiConfig = 3" "retryDelay apiConfig = 1000"
    by (simp_all add: apiConfig_def)
  have c3: "makeApiCall apiConfig always400 examplePayload 3 =
      (Inl (ErrorObject ''API Error: 400 Bad Request''), [FetchCall (endpoint apiConfig) examplePayload])"
    using makeApiCall_exhausted [where net = always400 and k = 3, OF attempt_always400]
    by (simp add: m)
  have c2: "makeApiCall apiConfig always400 examplePayload 2 =
      (Inl (ErrorObject ''API Error: 400 Bad Request''),
       [FetchCall (endpoint apiConfig) examplePayload, Delay 3000,
        FetchCall (endpoint apiConfig) examplePayload])"
    using makeApiCall_retry [where net = always400 and k = 2 and cfg = apiConfig
        and p = examplePayload, OF attempt_always400]
    by (simp add: m c3)
  have c1: "makeApiCall apiConfig always400 examplePayload 1 =
      (Inl (ErrorObject ''API Error: 400 Bad Request''),
       [FetchCall (endpoint apiConfig) examplePayload, Delay 2000,
        FetchCall (endpoint apiConfig) examplePayload, Delay 3000,
        FetchCall (endpoint apiConfig) examplePayload])"
    using makeApiCall_retry [where net = always400 and k = 1 and cfg = apiConfig
        and p = examplePayload, OF attempt_always400]
    by (simp add: m c2 numeral_2_eq_2 [symmetric])
  show ?thesis
    using makeApiCall_retry [where net = always400 and k = 0 and cfg = apiConfig
        and p = examplePayload, OF attempt_always400]
    by (simp add: m c1 [unfolded One_nat_def])
qed


lemma makeApiCall_alwaysTimeout:
  "makeApiCall apiConfig alwaysTimeout examplePayload 0 =
     (Inl (ErrorObject ''The user aborted a request.''),
      [FetchCall (endpoint apiConfig) examplePayload])"
  by (rule makeApiCall_aborted [where net = alwaysTimeout and k = 0]) (rule attempt_alwaysTimeout)

text \<open>
  C2, as stated: under persistent timeouts the call is attempted \<open>maxRetries + 1\<close> times.
  A timeout aborts the controller, and the retry is guarded by
  \<open>!controller.signal.aborted\<close>: there is one attempt and no wait.
\<close>

theorem retry_bound_counterexample:
  "attempt (alwaysTimeout 0) = Inl (ErrorObject ''The user aborted a request.'', True) \<and>
   attempts (snd (makeApiCall apiConfig alwaysTimeout examplePayload 0)) = 1 \<and>
   attempts (snd (makeApiCall apiConfig alwaysTimeout examplePayload 0)) \<noteq> maxRetries apiConfig + 1 \<and>
   delays (snd (makeApiCall apiConfig alwaysTimeout examplePayload 0)) = []"
proof -
  have "maxRetries apiConfig = 3" by (simp add: apiConfig_def)
  then show ?thesis
    unfolding makeApiCall_alwaysTimeout attempt_alwaysTimeout
    by (simp add: attempts_simps delays_simps)
qed

text \<open>
  C2, amended. A call that times out is not retried: one attempt, then the abort error
  is thrown. When every attempt fails otherwise (the request is rejected, the status is
  not a success, the body is not JSON), there are exactly \<open>maxRetries + 1\<close> attempts,
  the waits between them are \<open>retryDelay\<close> times 1, 2, ..., \<open>maxRetries\<close>, and the error
  of the last attempt is thrown. An error thrown to \<open>handleSubmit\<close> ends the submission
  with an error sentence on the page and the in-flight flag cleared.
\<close>

theorem retry_bound_amended:
  "(attempt (net 0) = Inl (eAbort, True) \<longrightarrow>
      makeApiCall cfg net p 0 = (Inl eAbort, [FetchCall (endpoint cfg) p])) \<and>
   ((\<forall>j\<le>maxRetries cfg. \<exists>e. attempt (net j) = Inl (e, False)) \<longrightarrow>
      attempts (snd (makeApiCall cfg net p 0)) = maxRetries cfg + 1 \<and>
      delays (snd (makeApiCall cfg net p 0)) = map (\<lambda>i. retryDelay cfg * i) [1..<maxRetries cfg + 1] \<and>
      (\<exists>e. attempt (net (maxRetries cfg)) = Inl (e, False) \<and> fst (makeApiCall cfg net p 0) = Inl e)) \<and>
   (\<not> isSubmitting h \<and> validateEmail fe = \<lparr>isValid = True, error = None, value = v\<rparr> \<and>
    fst (submitToZoho (config h) b net v) = Inl err \<and> errorMessageOf err = Some m \<longrightarrow>
      (\<exists>evs. handleSubmit b net fe h =
         (Inr (), h\<lparr>isSubmitting := False, loading := False, errorText := Some msgUnknown,
                    announcement := ''Form submission failed: '' @ msgUnknown\<rparr>,
          snd (submitToZoho (config h) b net v) @ evs)))"
proof (intro conjI impI)
  assume "attempt (net 0) = Inl (eAbort, True)"
  then show "makeApiCall cfg net p 0 = (Inl eAbort, [FetchCall (endpoint cfg) p])"
    by (rule makeApiCall_aborted [where net = net and k = 0])
next
  assume fail: "\<forall>j\<le>maxRetries cfg. \<exists>e. attempt (net j) = Inl (e, False)"
  note from0 = persistent_failure_from [OF fail, where k = 0 and p = p]
  from from0 show "attempts (snd (makeApiCall cfg net p 0)) = maxRetries cfg + 1" by simp
  from from0 show "delays (snd (makeApiCall cfg net p 0)) =
      map (\<lambda>i. retryDelay cfg * i) [1..<maxRetries cfg + 1]" by simp
  from from0 show "\<exists>e. attempt (net (maxRetries cfg)) = Inl (e, False) \<and>
      fst (makeApiCall cfg net p 0) = Inl e" by simp
next
  assume "\<not> isSubmitting h \<and> validateEmail fe = \<lparr>isValid = True, error = None, value = v\<rparr> \<and>
    fst (submitToZoho (config h) b net v) = Inl err \<and> errorMessageOf err = Some m"
  then show "\<exists>evs. handleSubmit b net fe h =
         (Inr (), h\<lparr>isSubmitting := False, loading := False, errorText := Some msgUnknown,
                    announcement := ''Form submission failed: '' @ msgUnknown\<rparr>,
          snd (submitToZoho (config h) b net v) @ evs)"
    using handleSubmit_error [of h fe v b net err m] by blast
qed

theorem retry_bound_amended_witness:
  "makeApiCall apiConfig alwaysTimeout examplePayload 0 =
     (Inl (ErrorObject ''The user aborted a request.''),
      [FetchCall (endpoint apiConfig) examplePayload]) \<and>
   attempts (snd (makeApiCall apiConfig always400 examplePayload 0)) = 4 \<and>
   delays (snd (makeApiCall apiConfig always400 examplePayload 0)) = [1000, 2000, 3000] \<and>
   fst (makeApiCall apiConfig always400 examplePayload 0)
     = Inl (ErrorObject ''API Error: 400 Bad Request'') \<and>
   errorText (fst (snd (handleSubmit production always400 (Some ''jane.doe@schoolboard.org'') idle)))
     = Some msgUnknown \<and>
   \<not> isSubmitting (fst (snd (handleSubmit production always400 (Some ''jane.doe@schoolboard.org'') idle)))"
proof -
  note thm1 = retry_bound_amended [where net = alwaysTimeout and cfg = apiConfig
      and p = examplePayload and eAbort = "ErrorObject ''The user aborted a request.''"
      and h = idle and b = production and fe = "Some ''jane.doe@schoolboard.org''"
      and v = "''jane.doe@schoolboard.org''" and err = "ErrorObject ''The user aborted a request.''"
      and m = "''The user aborted a request.''"]
  note thm2 = retry_bound_amended [where net = always400 and cfg = apiConfig
      and p = examplePayload and eAbort = "ErrorObject ''API Error: 400 Bad Request''"
      and h = idle and b = production and fe = "Some ''jane.doe@schoolboard.org''"
      and v = "''jane.doe@schoolboard.org''" and err = "ErrorObject ''API Error: 400 Bad Request''"
      and m = "''API Error: 400 Bad Request''"]
  have a: "makeApiCall apiConfig alwaysTimeout examplePayload 0 =
     (Inl (ErrorObject ''The user aborted a request.''),
      [FetchCall (endpoint apiConfig) examplePayload])"
    using thm1 attempt_alwaysTimeout by blast
  have fail: "\<forall>j\<le>maxRetries apiConfig. \<exists>e. attempt (always400 j) = Inl (e, False)"
    by (simp add: attempt_always400)
  have cfg: "config idle = apiConfig" "\<not> isSubmitting idle"
    by (simp_all add: idle_def)
  have thrown: "fst (submitToZoho (config idle) production always400 ''jane.doe@schoolboard.org'')
      = Inl (ErrorObject ''API Error: 400 Bad Request'')"
    by (simp add: cfg submitToZoho_production makeApiCall_always400)
  have msg: "errorMessageOf (ErrorObject ''API Error: 400 Bad Request'') = Some ''API Error: 400 Bad Request''"
    by (simp add: errorMessageOf_def)
  have b1: "attempts (snd (makeApiCall apiConfig always400 examplePayload 0)) = maxRetries apiConfig + 1"
    using thm2 fail by blast
  have c: "\<exists>evs. handleSubmit production always400 (Some ''jane.doe@schoolboard.org'') idle =
         (Inr (), idle\<lparr>isSubmitting := False, loading := False, errorText := Some msgUnknown,
                    announcement := ''Form submission failed: '' @ msgUnknown\<rparr>,
          snd (submitToZoho (config idle) production always400 ''jane.doe@schoolboard.org'') @ evs)"
    using thm2 cfg(2) validate_jane thrown msg by blast
  have m: "maxRetries apiConfig = 3" "retryDelay apiConfig = 1000"
    by (simp_all add: apiConfig_def)
  from c obtain evs where c': "handleSubmit production always400 (Some ''jane.doe@schoolboard.org'') idle =
         (Inr (), idle\<lparr>isSubmitting := False, loading := False, errorText := Some msgUnknown,
                    announcement := ''Form submission failed: '' @ msgUnknown\<rparr>,
          snd (submitToZoho (config idle) production always400 ''jane.doe@schoolboard.org'') @ evs)"
    by blast
  have b2: "delays (snd (makeApiCall apiConfig always400 examplePayload 0)) = [1000, 2000, 3000]"
    unfolding makeApiCall_always400 by (simp add: delays_simps)
  show ?thesis
    using a b1 b2 by (simp add: m c' makeApiCall_always400)
qed

text \<open>
  C3, as stated: a call that fails with a 4xx status is not retried. The status error is
  thrown inside the \<open>try\<close> block and caught by the same \<open>catch\<close> that retries: a
  persistent 400 is requested four times.
\<close>

theorem client_error_no_retry_counterexample:
  "always400 0 = Response 400 ''Bad Request'' (Inr (JObj [])) \<and>
   attempts (snd (makeApiCall apiConfig always400 examplePayload 0)) = 4 \<and>
   delays (snd (makeApiCall apiConfig always400 examplePayload 0)) = [1000, 2000, 3000]"
  unfolding makeApiCall_always400
  by (simp add: attempts_simps delays_simps always400_def)

text \<open>
  C3, amended: a call that fails with a 4xx status is retried like every failure that is
  not a timeout. While the retry count is below \<open>maxRetries\<close> the request is issued
  again after \<open>retryDelay\<close> times the attempt number, and the outcome is that of the
  next call; the status error is thrown only at retry count \<open>maxRetries\<close>.
\<close>

theorem client_error_retried:
  assumes "net k = Response st statusText b" and "400 \<le> st" and "st \<le> 499"
  shows "(k < maxRetries cfg \<longrightarrow>
            makeApiCall cfg net p k =
              (fst (makeApiCall cfg net p (k + 1)),
               FetchCall (endpoint cfg) p # Delay (retryDelay cfg * (k + 1))
                 # snd (makeApiCall cfg net p (k + 1)))) \<and>
         (\<not> k < maxRetries cfg \<longrightarrow>
            makeApiCall cfg net p k =
              (Inl (ErrorObject (''API Error: '' @ showNat st @ '' '' @ statusText)),
               [FetchCall (endpoint cfg) p]))"
proof -
  have a: "attempt (net k) = Inl (ErrorObject (''API Error: '' @ showNat st @ '' '' @ statusText), False)"
    using assms by (simp add: attempt_def ok_def)
  show ?thesis
    using makeApiCall_retry [where net = net and k = k and cfg = cfg and p = p, OF a]
      makeApiCall_exhausted [where net = net and k = k and cfg = cfg and p = p, OF a]
    by blast
qed

theorem client_error_retried_witness:
  "always400 0 = Response 400 ''Bad Request'' (Inr (JObj [])) \<and>
   0 < maxRetries apiConfig \<and>
   makeApiCall apiConfig always400 examplePayload 0 =
     (fst (makeApiCall apiConfig always400 examplePayload 1),
      FetchCall (endpoint apiConfig) examplePayload # Delay 1000
        # snd (makeApiCall apiConfig always400 examplePayload 1)) \<and>
   \<not> 3 < maxRetries apiConfig \<and>
   makeApiCall apiConfig always400 examplePayload 3 =
     (Inl (ErrorObject (''API Error: '' @ showNat 400 @ '' Bad Request'')),
      [FetchCall (endpoint apiConfig) examplePayload])"
proof -
  have r: "always400 0 = Response 400 ''Bad Request'' (Inr (JObj []))"
      "always400 3 = Response 400 ''Bad Request'' (Inr (JObj []))"
    by (simp_all add: always400_def)
  have m: "maxRetries apiConfig = 3" "retryDelay apiConfig = 1000"
    by (simp_all add: apiConfig_def)
  show ?thesis
    using client_error_retried [where net = always400 and k = 0 and cfg = apiConfig
        and p = examplePayload, OF r(1)]
      client_error_retried [where net = always400 and k = 3 and cfg = apiConfig
        and p = examplePayload, OF r(2)]
    by (simp add: m r)
qed

lemma handleSubmitBegin_pending:
  "handleSubmitBegin formEmail h = (True, h', evs) \<Longrightarrow> isSubmitting h' \<and> evs = []"
  by (auto simp: handleSubmitBegin_def Let_def setLoadingState_def split: if_splits prod.splits)

text \<open>
  C9: while the in-flight flag is set, \<open>handleSubmit\<close> returns at once. The handler is
  unchanged, nothing is fetched, shown or scheduled, and the call returns normally; the
  click listener of the button does the same.
\<close>

theorem single_flight:
  assumes "isSubmitting h"
  shows "handleSubmit b net formEmail h = (Inr (), h, []) \<and>
         submitButtonClick b net formEmail h = (Inr (), h, []) \<and>
         handleSubmitBegin formEmail h = (False, h, []) \<and>
         attempts (snd (snd (handleSubmit b net formEmail h))) = 0"
  using assms
  by (simp add: handleSubmit_def submitButtonClick_def handleSubmitBegin_def attempts_simps)

theorem single_flight_witness:
  "handleSubmitBegin (Some ''jane.doe@schoolboard.org'') idle =
     (True, idle\<lparr>isSubmitting := True, loading := True\<rparr>, []) \<and>
   handleSubmit production always400 (Some ''jane.doe@schoolboard.org'')
       (idle\<lparr>isSubmitting := True, loading := True\<rparr>) =
     (Inr (), idle\<lparr>isSubmitting := True, loading := True\<rparr>, [])"
proof -
  have p: "isSubmitting (idle\<lparr>isSubmitting := True, loading := True\<rparr>)" by simp
  have "handleSubmitBegin (Some ''jane.doe@schoolboard.org'') idle =
     (True, idle\<lparr>isSubmitting := True, loading := True\<rparr>, [])"
    by (simp add: handleSubmitBegin_def validateFormData_def validate_jane idle_def
          setLoadingState_def)
  then show ?thesis
    using single_flight [OF p, of production always400 "Some ''jane.doe@schoolboard.org''"]
    by simp
qed

end
